theory Spec2Isabelle
  imports Complex_Main "HOL-Library.AList"
begin

section \<open>The XRP dashboard updater\<close>

text \<open>
  A shallow embedding of \<^verbatim>\<open>xrp_dashboard_updater.py\<close>: the price fetch, the
  read-merge-write of the dashboard document, the continuous loop and the command line.
  Everything the script does besides computing (console, files, network, clock, sleep,
  Ctrl-C) is a field of an explicit \<open>world\<close> that every function takes and returns;
  every exception the script can meet is a value.
\<close>

subsection \<open>JSON values and Python subscripting\<close>

text \<open>
  What \<^verbatim>\<open>json.load\<close> and \<^verbatim>\<open>response.json()\<close> return. A Python dict keeps its
  keys in insertion order, so an object is an association list; lookup takes the first
  entry of a key. A float is only ever carried and printed by the script, never computed
  with, and is held as a real number.
\<close>

datatype json =
    JNull
  | JBool bool
  | JInt int
  | JFloat real
  | JStr string
  | JArr "json list"
  | JObj "(string \<times> json) list"

datatype exn =
    FileNotFoundError
  | JSONDecodeError
  | KeyError string
  | TypeError
  | ValueError
  | OverflowError
  | UnicodeDecodeError
  | RecursionError
  | OSError nat
  | ConnectionError
  | Timeout
  | HTTPError nat
  | KeyboardInterrupt

text \<open>\<^verbatim>\<open>except Exception\<close> catches every class above but \<^verbatim>\<open>KeyboardInterrupt\<close>,
  which derives from \<^verbatim>\<open>BaseException\<close> only.\<close>

fun is_Exception :: "exn \<Rightarrow> bool" where
  "is_Exception KeyboardInterrupt = False"
| "is_Exception _ = True"

text \<open>The outcome of a statement or call: it raises, or it returns a value.\<close>

datatype 'a result = Raise exn | Return 'a

text \<open>\<^verbatim>\<open>obj[key]\<close> with a string key: a dict looks the key up and raises \<^verbatim>\<open>KeyError\<close>
  when it is absent; a list or a string wants an integer index, and the other values are
  not subscriptable (\<^verbatim>\<open>TypeError\<close> in each case).\<close>

fun getitem :: "json \<Rightarrow> string \<Rightarrow> exn + json" where
  "getitem (JObj kvs) k = (case map_of kvs k of None \<Rightarrow> Inl (KeyError k) | Some v \<Rightarrow> Inr v)"
| "getitem _ k = Inl TypeError"

text \<open>\<^verbatim>\<open>obj[key] = value\<close> with a string key: a dict replaces the value of an existing key
  where it stands and appends a new key at the end; nothing else accepts the assignment.\<close>

fun setitem :: "json \<Rightarrow> string \<Rightarrow> json \<Rightarrow> exn + json" where
  "setitem (JObj kvs) k v = Inr (JObj (AList.update k v kvs))"
| "setitem _ k v = Inl TypeError"

text \<open>\<^verbatim>\<open>obj[p1]...[pn][key] = value\<close>: the subscripts \<open>p1 ... pn\<close> are read from left to
  right, the last object reached is assigned to, and (the objects being shared by
  reference) the change is seen from \<open>obj\<close>. A document that was read from a file is a
  tree, so there is no other alias.\<close>

fun set_path :: "json \<Rightarrow> string list \<Rightarrow> string \<Rightarrow> json \<Rightarrow> exn + json" where
  "set_path obj [] k v = setitem obj k v"
| "set_path obj (p # ps) k v =
     (case getitem obj p of
        Inl e \<Rightarrow> Inl e
      | Inr sub \<Rightarrow>
          (case set_path sub ps k v of
             Inl e \<Rightarrow> Inl e
           | Inr sub' \<Rightarrow> setitem obj p sub'))"

fun get_path :: "json \<Rightarrow> string list \<Rightarrow> exn + json" where
  "get_path obj [] = Inr obj"
| "get_path obj (p # ps) =
     (case getitem obj p of Inl e \<Rightarrow> Inl e | Inr sub \<Rightarrow> get_path sub ps)"

subsection \<open>Numbers as text\<close>

definition digit_char :: "nat \<Rightarrow> char" where
  "digit_char d = ''0123456789'' ! d"

text \<open>The decimal digits of a natural number, as \<^verbatim>\<open>str\<close> writes them.\<close>

fun digits :: "nat \<Rightarrow> string" where
  "digits n = (if n < 10 then [digit_char n] else digits (n div 10) @ [digit_char (n mod 10)])"

declare digits.simps [simp del]

definition py_str :: "int \<Rightarrow> string" where
  "py_str i = (if i < 0 then CHR ''-'' # digits (nat (- i)) else digits (nat i))"

text \<open>\<open>pad k n\<close>: the decimal digits of \<open>n\<close> with zeros in front up to the width \<open>k\<close>
  (\<^verbatim>\<open>%0kd\<close>).\<close>

definition pad :: "nat \<Rightarrow> nat \<Rightarrow> string" where
  "pad k n = replicate (k - length (digits n)) (CHR ''0'') @ digits n"

text \<open>A reading of the local wall clock, \<^verbatim>\<open>datetime.now()\<close>: a naive datetime.\<close>

record datetime =
  year :: nat
  month :: nat
  day :: nat
  hour :: nat
  minute :: nat
  second :: nat
  microsecond :: nat

text \<open>\<^verbatim>\<open>datetime.isoformat()\<close>: \<^verbatim>\<open>YYYY-MM-DDTHH:MM:SS\<close>, followed by \<^verbatim>\<open>.ffffff\<close> when
  the microseconds are not zero.\<close>

definition isoformat :: "datetime \<Rightarrow> string" where
  "isoformat t =
     pad 4 (year t) @ ''-'' @ pad 2 (month t) @ ''-'' @ pad 2 (day t) @ ''T'' @
     pad 2 (hour t) @ '':'' @ pad 2 (minute t) @ '':'' @ pad 2 (second t) @
     (if microsecond t = 0 then [] else ''.'' @ pad 6 (microsecond t))"




subsection \<open>The world the script runs in\<close>

text \<open>
  The content of a file or of an HTTP body is represented by what the JSON parser makes
  of it: the parsed value, or one of the ways in which reading and parsing fail: text
  that is not JSON, bytes that are not text in the encoding of the file, an integer
  literal longer than Python converts (4300 digits), or nesting deeper than the
  parser's recursion goes. The \<^verbatim>\<open>json\<close> library is not part of the script;
  \<^verbatim>\<open>json.dump\<close> is taken to write text that parses back to the value dumped.
\<close>

datatype content =
    Json_text json
  | Not_json string
  | Not_text
  | Long_integer
  | Deep_nesting

text \<open>\<^verbatim>\<open>json.load(f)\<close> on a file opened for reading as text.\<close>

definition json_load :: "content \<Rightarrow> exn + json" where
  "json_load c =
     (case c of
        Json_text d \<Rightarrow> Inr d
      | Not_json s \<Rightarrow> Inl JSONDecodeError
      | Not_text \<Rightarrow> Inl UnicodeDecodeError
      | Long_integer \<Rightarrow> Inl ValueError
      | Deep_nesting \<Rightarrow> Inl RecursionError)"

text \<open>\<^verbatim>\<open>response.json()\<close>: the \<^verbatim>\<open>requests\<close> library decodes the body leniently, so
  bytes that are not text end as a decoding error of the JSON parser.\<close>

definition response_json :: "content \<Rightarrow> exn + json" where
  "response_json c =
     (case c of
        Json_text d \<Rightarrow> Inr d
      | Not_json s \<Rightarrow> Inl JSONDecodeError
      | Not_text \<Rightarrow> Inl JSONDecodeError
      | Long_integer \<Rightarrow> Inl ValueError
      | Deep_nesting \<Rightarrow> Inl RecursionError)"

definition json_dump :: "json \<Rightarrow> content" where
  "json_dump d = Json_text d"

text \<open>What one \<^verbatim>\<open>requests.get\<close> comes back with: no connection, a timeout, or a
  response with a status code and a body.\<close>

datatype http_result = Conn_failed | Timed_out | Response nat content

text \<open>One constructor for each \<^verbatim>\<open>print\<close> call of the script, with the values that
  the line interpolates.\<close>

datatype msg =
    Banner_open
  | Banner_title datetime
  | Banner_close
  | Err_not_found string
  | Msg_fetching
  | Err_fetch exn
  | Ok_price json
  | Ok_change json
  | Ok_market_cap json
  | Ok_volume json
  | Warn_keeping
  | Msg_updating_supply
  | Ok_exchange_supply int
  | Ok_updated
  | Msg_file string
  | Banner_end
  | Msg_continuous int
  | Msg_press_ctrl_c
  | Msg_next_update int
  | Msg_farewell
  | Usage_title
  | Usage_header
  | Usage_single
  | Usage_continuous
  | Usage_help

datatype event =
    Print msg
  | Http_get string "(string \<times> string) list" nat
  | File_write string
  | Sleep int

text \<open>
  \<open>files\<close> is the file system; \<open>http\<close> gives the outcome of the i-th request and
  \<open>clock\<close> the i-th reading of the clock, \<open>http_calls\<close> and \<open>clock_reads\<close> counting
  how many were made; \<open>sleeps_left\<close> says how many more sleeps run to their end before
  the user presses Ctrl-C during the next one (\<open>None\<close>: the user never does);
  \<open>monotonic\<close> gives the reading of the monotonic clock, in nanoseconds, at the i-th
  call of \<^verbatim>\<open>time.sleep\<close> that reaches the operating system, and \<open>sleep_calls\<close> counts
  those calls; \<open>trace\<close> lists the effects in the order they happened. A file that exists can be
  read, any file can be written, console output succeeds, and Ctrl-C arrives during a
  sleep: failures of the operating system other than a missing file, and an interrupt in
  the middle of a cycle, are outside this model.
\<close>

record world =
  files :: "string \<rightharpoonup> content"
  http :: "nat \<Rightarrow> http_result"
  http_calls :: nat
  clock :: "nat \<Rightarrow> datetime"
  clock_reads :: nat
  sleeps_left :: "nat option"
  monotonic :: "nat \<Rightarrow> int"
  sleep_calls :: nat
  trace :: "event list"

definition emit :: "event \<Rightarrow> world \<Rightarrow> world" where
  "emit e w = w\<lparr>trace := trace w @ [e]\<rparr>"

definition print :: "msg \<Rightarrow> world \<Rightarrow> world" where
  "print m w = emit (Print m) w"

definition datetime_now :: "world \<Rightarrow> datetime \<times> world" where
  "datetime_now w = (clock w (clock_reads w), w\<lparr>clock_reads := Suc (clock_reads w)\<rparr>)"

definition requests_get ::
  "string \<Rightarrow> (string \<times> string) list \<Rightarrow> nat \<Rightarrow> world \<Rightarrow> http_result \<times> world" where
  "requests_get url params timeout w =
     (http w (http_calls w),
      emit (Http_get url params timeout) (w\<lparr>http_calls := Suc (http_calls w)\<rparr>))"

text \<open>\<^verbatim>\<open>open(filename, 'r')\<close> followed by reading the file.\<close>

definition open_read :: "string \<Rightarrow> world \<Rightarrow> exn + content" where
  "open_read filename w =
     (case files w filename of None \<Rightarrow> Inl FileNotFoundError | Some c \<Rightarrow> Inr c)"

text \<open>\<^verbatim>\<open>open(filename, 'w')\<close> followed by writing \<open>c\<close>: the file is created or replaced.\<close>

definition write_file :: "string \<Rightarrow> content \<Rightarrow> world \<Rightarrow> world" where
  "write_file filename c w = emit (File_write filename) (w\<lparr>files := (files w)(filename \<mapsto> c)\<rparr>)"

text \<open>\<^verbatim>\<open>time.sleep(secs)\<close> with an integer, as CPython 3.11 does it on Linux: the
  seconds are converted to 64-bit nanoseconds (\<^verbatim>\<open>OverflowError\<close> when they do not
  fit) and a negative length is refused (\<^verbatim>\<open>ValueError\<close>); the length is then added to
  the reading of the monotonic clock, and the operating system refuses the deadline
  when the sum does not fit in 64 bits (\<^verbatim>\<open>OSError\<close> with errno 22). Otherwise the
  process sleeps, unless Ctrl-C cuts the sleep short.\<close>

definition SLEEP_MAX :: int where
  "SLEEP_MAX = (2 ^ 63 - 1) div 10 ^ 9"

definition deadline_fits :: "int \<Rightarrow> int \<Rightarrow> bool" where
  "deadline_fits now_ns secs = (now_ns + secs * 10 ^ 9 \<le> 2 ^ 63 - 1)"

definition time_sleep :: "int \<Rightarrow> world \<Rightarrow> unit result \<times> world" where
  "time_sleep secs w =
     (if secs > SLEEP_MAX \<or> secs < - SLEEP_MAX then (Raise OverflowError, w)
      else if secs < 0 then (Raise ValueError, w)
      else
        (let now_ns = monotonic w (sleep_calls w);
             w1 = w\<lparr>sleep_calls := Suc (sleep_calls w)\<rparr>
         in
         if \<not> deadline_fits now_ns secs then (Raise (OSError 22), w1)
         else (case sleeps_left w1 of
                 None \<Rightarrow> (Return (), emit (Sleep secs) w1)
               | Some 0 \<Rightarrow> (Raise KeyboardInterrupt, emit (Sleep secs) w1)
               | Some (Suc n) \<Rightarrow>
                   (Return (), emit (Sleep secs) (w1\<lparr>sleeps_left := Some n\<rparr>)))))"

text \<open>Sequencing of two steps of which the first may raise.\<close>

definition and_then :: "exn + 'a \<Rightarrow> ('a \<Rightarrow> exn + 'b) \<Rightarrow> exn + 'b" where
  "and_then r f = (case r of Inl e \<Rightarrow> Inl e | Inr x \<Rightarrow> f x)"

subsection \<open>\<^verbatim>\<open>fetch_xrp_price_data\<close>\<close>

text \<open>The dict that the function returns: four keys, each with the value found in the
  response, whatever JSON value that is.\<close>

record price_data =
  price :: json
  price_change_24h :: json
  market_cap :: json
  volume_24h :: json

definition url :: string where
  "url = ''https://api.coingecko.com/api/v3/simple/price''"

definition params :: "(string \<times> string) list" where
  "params = [(''ids'', ''ripple''), (''vs_currencies'', ''usd''),
             (''include_24hr_change'', ''true''), (''include_market_cap'', ''true''),
             (''include_24h_vol'', ''true'')]"

text \<open>\<^verbatim>\<open>response.raise_for_status()\<close> raises for the status codes 400 to 599.\<close>

definition raise_for_status :: "nat \<Rightarrow> exn option" where
  "raise_for_status status =
     (if 400 \<le> status \<and> status < 600 then Some (HTTPError status) else None)"

text \<open>The dict built at the \<^verbatim>\<open>return\<close> of the \<^verbatim>\<open>try\<close> block, its four values read in
  the order written.\<close>

definition extract_prices :: "json \<Rightarrow> exn + price_data" where
  "extract_prices data =
     and_then (get_path data [''ripple'', ''usd'']) (\<lambda>p.
     and_then (get_path data [''ripple'', ''usd_24h_change'']) (\<lambda>c.
     and_then (get_path data [''ripple'', ''usd_market_cap'']) (\<lambda>m.
     and_then (get_path data [''ripple'', ''usd_24h_vol'']) (\<lambda>v.
       Inr \<lparr>price = p, price_change_24h = c, market_cap = m, volume_24h = v\<rparr>))))"

text \<open>Lines 25 to 33, what the \<^verbatim>\<open>try\<close> block does with the outcome of the request:
  \<^verbatim>\<open>requests.get\<close> itself raises when there is no connection or no answer in
  time.\<close>

definition response_data :: "http_result \<Rightarrow> exn + price_data" where
  "response_data r =
     (case r of
        Conn_failed \<Rightarrow> Inl ConnectionError
      | Timed_out \<Rightarrow> Inl Timeout
      | Response status body \<Rightarrow>
          (case raise_for_status status of
             Some e \<Rightarrow> Inl e
           | None \<Rightarrow> and_then (response_json body) extract_prices))"

text \<open>The body of the \<^verbatim>\<open>try\<close> block.\<close>

definition fetch_try :: "world \<Rightarrow> price_data result \<times> world" where
  "fetch_try w =
     (let (r, w1) = requests_get url params 10 w in
      case response_data r of
        Inl e \<Rightarrow> (Raise e, w1)
      | Inr pd \<Rightarrow> (Return pd, w1))"

text \<open>The whole function: \<^verbatim>\<open>except Exception\<close> prints the error and returns \<^verbatim>\<open>None\<close>.\<close>

definition fetch_xrp_price_data :: "world \<Rightarrow> price_data option result \<times> world" where
  "fetch_xrp_price_data w =
     (case fetch_try w of
        (Return pd, w1) \<Rightarrow> (Return (Some pd), w1)
      | (Raise e, w1) \<Rightarrow>
          (if is_Exception e then (Return None, print (Err_fetch e) w1) else (Raise e, w1)))"

subsection \<open>\<^verbatim>\<open>fetch_exchange_supply\<close>\<close>

text \<open>The function takes no argument, does no input or output and returns the same dict
  of three keys at every call.\<close>

record exchange_data =
  binance_reserves :: int
  total_exchange_supply :: int
  note_text :: string

definition fetch_exchange_supply :: exchange_data where
  "fetch_exchange_supply =
     \<lparr>binance_reserves = 3600000000,
      total_exchange_supply = 8500000000,
      note_text = ''Manual update required for accurate exchange data''\<rparr>"

subsection \<open>\<^verbatim>\<open>update_dashboard_json\<close>\<close>

text \<open>Python converts an integer to a float when it formats it with \<^verbatim>\<open>f\<close> or divides
  it by a float, and raises \<^verbatim>\<open>OverflowError\<close> when the integer rounds beyond the largest
  double.\<close>

definition float_ok :: "int \<Rightarrow> bool" where
  "float_ok n = (\<bar>n\<bar> < 2 ^ 1024 - 2 ^ 970)"

text \<open>\<^verbatim>\<open>f"{v:.4f}"\<close> and \<^verbatim>\<open>f"{v:.2f}"\<close>: whether formatting the value raises. Numbers
  (a bool is one) accept the format; a string raises \<^verbatim>\<open>ValueError\<close>, the other values
  \<^verbatim>\<open>TypeError\<close>.\<close>

fun format_fixed :: "json \<Rightarrow> exn option" where
  "format_fixed (JInt n) = (if float_ok n then None else Some OverflowError)"
| "format_fixed (JFloat x) = None"
| "format_fixed (JBool b) = None"
| "format_fixed (JStr s) = Some ValueError"
| "format_fixed _ = Some TypeError"

text \<open>\<^verbatim>\<open>f"{v/1e9:.2f}"\<close>: whether the division raises; its result is a float, which
  the format accepts.\<close>

fun billions :: "json \<Rightarrow> exn option" where
  "billions (JInt n) = (if float_ok n then None else Some OverflowError)"
| "billions (JFloat x) = None"
| "billions (JBool b) = None"
| "billions _ = Some TypeError"

text \<open>One \<^verbatim>\<open>print(f"...")\<close>: the string is built first, and nothing is printed when
  building it raises.\<close>

definition print_f :: "exn option \<Rightarrow> msg \<Rightarrow> world \<Rightarrow> unit result \<times> world" where
  "print_f built m w = (case built of Some e \<Rightarrow> (Raise e, w) | None \<Rightarrow> (Return (), print m w))"

definition default_filename :: string where
  "default_filename = ''xrp_consolidated_dashboard.json''"

definition metrics_path :: "string list" where
  "metrics_path = [''current_market_metrics'']"

definition key_metrics_path :: "string list" where
  "key_metrics_path = [''trigger_dashboard'', ''exchange_supply_depletion'', ''key_metrics'']"

text \<open>Lines 69 to 72: the four assignments into \<^verbatim>\<open>current_market_metrics\<close>.\<close>

definition merge_prices :: "price_data \<Rightarrow> json \<Rightarrow> exn + json" where
  "merge_prices pd dashboard =
     and_then (set_path dashboard metrics_path ''price_usd'' (price pd)) (\<lambda>d1.
     and_then (set_path d1 metrics_path ''price_change_24h_pct'' (price_change_24h pd)) (\<lambda>d2.
     and_then (set_path d2 metrics_path ''market_cap_usd'' (market_cap pd)) (\<lambda>d3.
     set_path d3 metrics_path ''volume_24h_usd'' (volume_24h pd))))"

text \<open>Lines 77 to 80: the four lines that report the new values.\<close>

definition print_prices :: "price_data \<Rightarrow> world \<Rightarrow> unit result \<times> world" where
  "print_prices pd w =
     (case print_f (format_fixed (price pd)) (Ok_price (price pd)) w of
        (Raise e, w1) \<Rightarrow> (Raise e, w1)
      | (Return _, w1) \<Rightarrow>
     (case print_f (format_fixed (price_change_24h pd)) (Ok_change (price_change_24h pd)) w1 of
        (Raise e, w2) \<Rightarrow> (Raise e, w2)
      | (Return _, w2) \<Rightarrow>
     (case print_f (billions (market_cap pd)) (Ok_market_cap (market_cap pd)) w2 of
        (Raise e, w3) \<Rightarrow> (Raise e, w3)
      | (Return _, w3) \<Rightarrow>
          print_f (billions (volume_24h pd)) (Ok_volume (volume_24h pd)) w3)))"

text \<open>Lines 67 to 82, \<^verbatim>\<open>if price_data: ... else: ...\<close>. The returned dict has four
  keys, so it is true whenever it is not \<^verbatim>\<open>None\<close>. In line 75 the right-hand side
  reads the clock before \<^verbatim>\<open>dashboard['metadata']\<close> is looked up.\<close>

definition reconcile_market_metrics ::
  "price_data option \<Rightarrow> json \<Rightarrow> world \<Rightarrow> json result \<times> world" where
  "reconcile_market_metrics price_data dashboard w =
     (case price_data of
        None \<Rightarrow> (Return dashboard, print Warn_keeping w)
      | Some pd \<Rightarrow>
          (case merge_prices pd dashboard of
             Inl e \<Rightarrow> (Raise e, w)
           | Inr d1 \<Rightarrow>
               (let (now, w1) = datetime_now w in
                case set_path d1 [''metadata''] ''last_updated'' (JStr (isoformat now)) of
                  Inl e \<Rightarrow> (Raise e, w1)
                | Inr d2 \<Rightarrow>
                    (case print_prices pd w1 of
                       (Raise e, w2) \<Rightarrow> (Raise e, w2)
                     | (Return _, w2) \<Rightarrow> (Return d2, w2)))))"

text \<open>Lines 88 and 89: the two assignments into \<^verbatim>\<open>key_metrics\<close>.\<close>

definition store_supply :: "exchange_data \<Rightarrow> json \<Rightarrow> exn + json" where
  "store_supply exchange_data dashboard =
     and_then
       (set_path dashboard key_metrics_path ''binance_reserves_xrp''
          (JStr (py_str (binance_reserves exchange_data)))) (\<lambda>d1.
     set_path d1 key_metrics_path ''total_exchange_supply_xrp''
       (JStr (py_str (total_exchange_supply exchange_data))))"

text \<open>Lines 86 to 90. \<^verbatim>\<open>fetch_exchange_supply()\<close> returns a dict of three keys, which
  is true, so the \<^verbatim>\<open>if exchange_data:\<close> always takes its branch.\<close>

definition reconcile_exchange_supply :: "json \<Rightarrow> world \<Rightarrow> json result \<times> world" where
  "reconcile_exchange_supply dashboard w =
     (let exchange_data = fetch_exchange_supply in
      case store_supply exchange_data dashboard of
        Inl e \<Rightarrow> (Raise e, w)
      | Inr d2 \<Rightarrow> (Return d2, print (Ok_exchange_supply (total_exchange_supply exchange_data)) w))"

text \<open>Lines 93 to 100: the file is written, three lines are printed, \<^verbatim>\<open>True\<close> is
  returned.\<close>

definition save_dashboard :: "string \<Rightarrow> json \<Rightarrow> world \<Rightarrow> bool result \<times> world" where
  "save_dashboard filename dashboard w =
     (let w1 = write_file filename (json_dump dashboard) w;
          w2 = print Ok_updated w1;
          w3 = print (Msg_file filename) w2;
          w4 = print Banner_end w3
      in (Return True, w4))"

text \<open>Lines 51 to 53: the banner, with the time of the update.\<close>

definition print_banner :: "world \<Rightarrow> world" where
  "print_banner w0 =
     (let w1 = print Banner_open w0;
          (t, w2) = datetime_now w1;
          w3 = print (Banner_title t) w2
      in print Banner_close w3)"

text \<open>The whole function. The \<^verbatim>\<open>try\<close> around the load has one handler,
  \<^verbatim>\<open>except FileNotFoundError\<close>; any other exception of the load leaves the function.\<close>

definition update_dashboard_json :: "string \<Rightarrow> world \<Rightarrow> bool result \<times> world" where
  "update_dashboard_json filename w0 =
     (let w4 = print_banner w0 in
      case and_then (open_read filename w4) json_load of
        Inl e \<Rightarrow>
          (if e = FileNotFoundError then (Return False, print (Err_not_found filename) w4)
           else (Raise e, w4))
      | Inr dashboard \<Rightarrow>
          (case fetch_xrp_price_data (print Msg_fetching w4) of
             (Raise e, w5) \<Rightarrow> (Raise e, w5)
           | (Return price_data, w5) \<Rightarrow>
          (case reconcile_market_metrics price_data dashboard w5 of
             (Raise e, w6) \<Rightarrow> (Raise e, w6)
           | (Return d1, w6) \<Rightarrow>
          (case reconcile_exchange_supply d1 (print Msg_updating_supply w6) of
             (Raise e, w7) \<Rightarrow> (Raise e, w7)
           | (Return d2, w7) \<Rightarrow> save_dashboard filename d2 w7))))"

subsection \<open>\<^verbatim>\<open>continuous_update\<close> and the command line\<close>

text \<open>The \<^verbatim>\<open>while True\<close> loop of lines 108 to 111. It ends only by an exception, so
  the value \<open>None\<close> of the option stands for a loop that runs forever.\<close>

partial_function (option) update_loop :: "int \<Rightarrow> world \<Rightarrow> (exn \<times> world) option" where
  "update_loop interval_minutes w =
     (case update_dashboard_json default_filename w of
        (Raise e, w1) \<Rightarrow> Some (e, w1)
      | (Return _, w1) \<Rightarrow>
          (case time_sleep (interval_minutes * 60) (print (Msg_next_update interval_minutes) w1) of
             (Raise e, w2) \<Rightarrow> Some (e, w2)
           | (Return _, w2) \<Rightarrow> update_loop interval_minutes w2))"

text \<open>The whole function: \<^verbatim>\<open>except KeyboardInterrupt\<close> prints the farewell and the
  function returns; any other exception leaves it.\<close>

definition continuous_update :: "int \<Rightarrow> world \<Rightarrow> (unit result \<times> world) option" where
  "continuous_update interval_minutes w =
     (let w1 = print (Msg_continuous interval_minutes) w;
          w2 = print Msg_press_ctrl_c w1
      in
      case update_loop interval_minutes w2 of
        None \<Rightarrow> None
      | Some (e, w3) \<Rightarrow>
          (if e = KeyboardInterrupt then Some (Return (), print Msg_farewell w3)
           else Some (Raise e, w3)))"

text \<open>The \<^verbatim>\<open>__main__\<close> block. \<open>argv\<close> is \<^verbatim>\<open>sys.argv\<close>, which always holds the
  program's name first; \<open>py_int\<close> is Python's \<^verbatim>\<open>int\<close> on a string, \<open>None\<close> where it
  raises \<^verbatim>\<open>ValueError\<close>. The value of the single update is dropped.\<close>

definition main ::
  "(string \<Rightarrow> int option) \<Rightarrow> string list \<Rightarrow> world \<Rightarrow> (unit result \<times> world) option" where
  "main py_int argv w =
     (if length argv > 1 then
        (if argv ! 1 = ''--continuous'' then
           (if length argv > 2 then
              (case py_int (argv ! 2) of
                 None \<Rightarrow> Some (Raise ValueError, w)
               | Some interval \<Rightarrow> continuous_update interval w)
            else continuous_update 15 w)
         else if argv ! 1 = ''--help'' then
           Some (Return (),
             print Usage_help (print Usage_continuous (print Usage_single
               (print Usage_header (print Usage_title w)))))
         else Some (Return (), w))
      else
        (case update_dashboard_json default_filename w of
           (Raise e, w1) \<Rightarrow> Some (Raise e, w1)
         | (Return _, w1) \<Rightarrow> Some (Return (), w1)))"

subsection \<open>Conditions on documents, snapshots and responses\<close>



text \<open>A JSON number that converts to a float.\<close>

fun numeric :: "json \<Rightarrow> bool" where
  "numeric (JFloat x) = True"
| "numeric (JInt n) = float_ok n"
| "numeric _ = False"

text \<open>The exception, if any, that lines 77 to 80 raise: that of the first of the four
  lines which cannot be built.\<close>

definition print_error :: "price_data \<Rightarrow> exn option" where
  "print_error pd =
     (case format_fixed (price pd) of
        Some e \<Rightarrow> Some e
      | None \<Rightarrow>
     (case format_fixed (price_change_24h pd) of
        Some e \<Rightarrow> Some e
      | None \<Rightarrow>
     (case billions (market_cap pd) of
        Some e \<Rightarrow> Some e
      | None \<Rightarrow> billions (volume_24h pd))))"

text \<open>A snapshot of four numeric fields.\<close>

definition numeric_snapshot :: "price_data \<Rightarrow> bool" where
  "numeric_snapshot pd =
     (numeric (price pd) \<and> numeric (price_change_24h pd) \<and>
      numeric (market_cap pd) \<and> numeric (volume_24h pd))"

text \<open>The failures of the price fetch, as the specification lists them: a network error,
  a timeout, an error status (the codes for which \<^verbatim>\<open>raise_for_status\<close> raises), a body
  that is not JSON, or a body in which \<^verbatim>\<open>ripple\<close> or one of its four expected keys
  cannot be read.\<close>

definition expected_keys :: "string list" where
  "expected_keys = [''usd'', ''usd_24h_change'', ''usd_market_cap'', ''usd_24h_vol'']"

definition missing_key :: "json \<Rightarrow> bool" where
  "missing_key data =
     (case getitem data ''ripple'' of
        Inl e \<Rightarrow> True
      | Inr ripple \<Rightarrow> list_ex (\<lambda>k. case getitem ripple k of Inl e \<Rightarrow> True | Inr v \<Rightarrow> False) expected_keys)"

definition fetch_fails :: "http_result \<Rightarrow> bool" where
  "fetch_fails r =
     (case r of
        Conn_failed \<Rightarrow> True
      | Timed_out \<Rightarrow> True
      | Response status body \<Rightarrow>
          (400 \<le> status \<and> status < 600) \<or>
          (case body of Json_text data \<Rightarrow> missing_key data | _ \<Rightarrow> True))"

text \<open>A response that the update can digest: the fetch fails on it, or it yields a
  snapshot of four numbers.\<close>

definition benign :: "http_result \<Rightarrow> bool" where
  "benign r = (case response_data r of Inl e \<Rightarrow> True | Inr pd \<Rightarrow> numeric_snapshot pd)"

text \<open>What a trace shows: the files written, the lengths of the sleeps, the requests
  sent.\<close>

fun written :: "event \<Rightarrow> string option" where
  "written (File_write f) = Some f"
| "written _ = None"

fun slept :: "event \<Rightarrow> int option" where
  "slept (Sleep secs) = Some secs"
| "slept _ = None"

fun requested :: "event \<Rightarrow> string option" where
  "requested (Http_get u ps t) = Some u"
| "requested _ = None"

definition writes :: "world \<Rightarrow> string list" where
  "writes w = List.map_filter written (trace w)"

definition sleeps :: "world \<Rightarrow> int list" where
  "sleeps w = List.map_filter slept (trace w)"

definition requests :: "world \<Rightarrow> string list" where
  "requests w = List.map_filter requested (trace w)"









subsection \<open>A dashboard document and a world to run the script in\<close>

definition example_metadata :: "(string \<times> json) list" where
  "example_metadata =
     [(''last_updated'', JStr ''2025-10-13T22:30:00''), (''version'', JStr ''1.0'')]"

definition example_metrics :: "(string \<times> json) list" where
  "example_metrics =
     [(''price_usd'', JFloat 3), (''price_change_24h_pct'', JFloat (- 2)),
      (''market_cap_usd'', JFloat 160000000000), (''volume_24h_usd'', JFloat 5000000000)]"

definition example_key_metrics :: "(string \<times> json) list" where
  "example_key_metrics =
     [(''binance_reserves_xrp'', JStr ''3500000000''),
      (''total_exchange_supply_xrp'', JStr ''8400000000'')]"

definition example_depletion :: "(string \<times> json) list" where
  "example_depletion =
     [(''status'', JStr ''active''), (''key_metrics'', JObj example_key_metrics)]"

definition example_triggers :: "(string \<times> json) list" where
  "example_triggers = [(''exchange_supply_depletion'', JObj example_depletion)]"

definition example_sections :: "(string \<times> json) list" where
  "example_sections =
     [(''metadata'', JObj example_metadata),
      (''current_market_metrics'', JObj example_metrics),
      (''simulation_models'',
         JArr [JObj [(''name'', JStr ''monte_carlo''), (''runs'', JInt 10000)]]),
      (''trigger_dashboard'', JObj example_triggers)]"

definition example_doc :: json where
  "example_doc = JObj example_sections"



definition example_time :: datetime where
  "example_time =
     \<lparr>year = 2026, month = 11, day = 3, hour = 14, minute = 9, second = 0, microsecond = 0\<rparr>"

definition example_response :: http_result where
  "example_response = Response 200 (Json_text (JObj
     [(''ripple'', JObj
         [(''usd'', JFloat 3.15), (''usd_24h_change'', JFloat 1.2),
          (''usd_market_cap'', JFloat 170000000000), (''usd_24h_vol'', JFloat 4800000000)])]))"



text \<open>A response in which three of the four expected keys are missing.\<close>

definition example_partial_response :: http_result where
  "example_partial_response =
     Response 200 (Json_text (JObj [(''ripple'', JObj [(''usd'', JFloat 3.15)])]))"



text \<open>A world with the given files in which every request has the given outcome, the
  clocks stand still (the monotonic one at an hour) and Ctrl-C comes during the second
  sleep.\<close>

definition example_world :: "(string \<rightharpoonup> content) \<Rightarrow> http_result \<Rightarrow> world" where
  "example_world fs r =
     \<lparr>files = fs, http = (\<lambda>i. r), http_calls = 0, clock = (\<lambda>i. example_time),
      clock_reads = 0, sleeps_left = Some 1, monotonic = (\<lambda>i. 3600 * 10 ^ 9),
      sleep_calls = 0, trace = []\<rparr>"

section \<open>Properties\<close>

subsection \<open>Numbers and times as text\<close>





subsection \<open>Subscripting and the shape of a document\<close>

lemma getitem_exception: "getitem d k = Inl e \<Longrightarrow> is_Exception e"
  by (cases d) (auto split: option.splits)

lemma get_path_exception: "get_path d ps = Inl e \<Longrightarrow> is_Exception e"
  by (induction ps arbitrary: d) (auto split: sum.splits dest: getitem_exception)

lemma and_then_Inl: "and_then r f = Inl e \<longleftrightarrow> r = Inl e \<or> (\<exists>x. r = Inr x \<and> f x = Inl e)"
  by (cases r) (simp_all add: and_then_def)

lemma and_then_Inr: "and_then r f = Inr y \<longleftrightarrow> (\<exists>x. r = Inr x \<and> f x = Inr y)"
  by (cases r) (simp_all add: and_then_def)






subsection \<open>The price fetch\<close>

lemma extract_prices_exception: "extract_prices data = Inl e \<Longrightarrow> is_Exception e"
  unfolding extract_prices_def and_then_Inl
  by (elim disjE exE conjE) (simp_all only: get_path_exception sum.distinct)

lemma response_data_exception: "response_data r = Inl e \<Longrightarrow> is_Exception e"
proof (cases r)
  case (Response status body)
  assume a: "response_data r = Inl e"
  show ?thesis
  proof (cases "raise_for_status status")
    case None
    with a Response have "and_then (response_json body) extract_prices = Inl e"
      by (simp add: response_data_def)
    then show ?thesis
      by (cases body) (auto simp: and_then_Inl response_json_def dest: extract_prices_exception)
  next
    case (Some x)
    with a Response show ?thesis
      by (auto simp: response_data_def raise_for_status_def split: if_splits)
  qed
qed (auto simp: response_data_def)

lemma fetch_run:
  "fetch_xrp_price_data w =
     (case response_data (http w (http_calls w)) of
        Inl e \<Rightarrow> (Return None, print (Err_fetch e) (emit (Http_get url params 10) (w\<lparr>http_calls := Suc (http_calls w)\<rparr>)))
      | Inr pd \<Rightarrow> (Return (Some pd), emit (Http_get url params 10) (w\<lparr>http_calls := Suc (http_calls w)\<rparr>)))"
  by (cases "response_data (http w (http_calls w))")
     (simp_all add: fetch_xrp_price_data_def fetch_try_def requests_get_def response_data_exception)

lemma missing_key_iff: "missing_key data \<longleftrightarrow> (\<exists>e. extract_prices data = Inl e)"
proof (cases "getitem data ''ripple''")
  case (Inl e)
  then show ?thesis by (simp add: missing_key_def extract_prices_def and_then_def)
next
  case (Inr ripple)
  then show ?thesis
    by (auto simp: missing_key_def extract_prices_def and_then_def expected_keys_def
          split: sum.splits)
qed

lemma fetch_fails_iff: "fetch_fails r \<longleftrightarrow> (\<exists>e. response_data r = Inl e)"
proof (cases r)
  case (Response status body)
  show ?thesis
  proof (cases body)
    case (Json_text data)
    with Response show ?thesis
      by (auto simp: fetch_fails_def response_data_def raise_for_status_def response_json_def
            and_then_def missing_key_iff)
  qed (insert Response,
       simp_all add: fetch_fails_def response_data_def raise_for_status_def response_json_def
         and_then_def)
qed (simp_all add: fetch_fails_def response_data_def)

lemma numeric_format: "numeric v \<Longrightarrow> format_fixed v = None \<and> billions v = None"
  by (cases v) simp_all


lemma numeric_print_error: "numeric_snapshot pd \<Longrightarrow> print_error pd = None"
  by (simp add: print_error_def numeric_snapshot_def numeric_format)


subsection \<open>The documents that the update builds\<close>













subsection \<open>The steps of the update\<close>






lemma map_filter_app:
  "List.map_filter f (xs @ ys) = List.map_filter f xs @ List.map_filter f ys"
  by (simp add: List.map_filter_def)



lemmas run_defs =
  update_dashboard_json_def print_banner_def Let_def datetime_now_def print_def emit_def
  open_read_def
  json_load_def and_then_def fetch_run save_dashboard_def write_file_def json_dump_def
  writes_def sleeps_def requests_def map_filter_app





subsection \<open>One cycle\<close>

lemma update_missing_file:
  assumes "files w f = None"
  shows "fst (update_dashboard_json f w) = Return False"
    "files (snd (update_dashboard_json f w)) = files w"
    "http (snd (update_dashboard_json f w)) = http w"
    "http_calls (snd (update_dashboard_json f w)) = http_calls w"
    "sleeps_left (snd (update_dashboard_json f w)) = sleeps_left w"
    "writes (snd (update_dashboard_json f w)) = writes w"
    "sleeps (snd (update_dashboard_json f w)) = sleeps w"
    "requests (snd (update_dashboard_json f w)) = requests w"
    "monotonic (snd (update_dashboard_json f w)) = monotonic w"
  using assms by (simp_all add: run_defs)

lemma json_load_error: "json_load c = Inl e \<Longrightarrow> e \<noteq> FileNotFoundError"
  by (cases c) (auto simp: json_load_def)

lemma update_not_json:
  assumes "files w f = Some c" "json_load c = Inl e"
  shows "fst (update_dashboard_json f w) = Raise e"
    "files (snd (update_dashboard_json f w)) = files w"
    "writes (snd (update_dashboard_json f w)) = writes w"
    "requests (snd (update_dashboard_json f w)) = requests w"
  using assms json_load_error [OF assms(2)]
  by (simp_all add: update_dashboard_json_def print_banner_def Let_def datetime_now_def
        print_def emit_def open_read_def and_then_def writes_def requests_def map_filter_app)


lemma update_no_data_any:
  assumes "response_data (http w (http_calls w)) = Inl e"
  shows "fst (update_dashboard_json f w) =
      (case and_then (open_read f w) json_load of
         Inl e1 \<Rightarrow> if e1 = FileNotFoundError then Return False else Raise e1
       | Inr d \<Rightarrow>
           (case store_supply fetch_exchange_supply d of
              Inl e2 \<Rightarrow> Raise e2
            | Inr d2 \<Rightarrow> Return True))"
    "files (snd (update_dashboard_json f w)) =
      (case and_then (open_read f w) json_load of
         Inl e1 \<Rightarrow> files w
       | Inr d \<Rightarrow>
           (case store_supply fetch_exchange_supply d of
              Inl e2 \<Rightarrow> files w
            | Inr d2 \<Rightarrow> (files w)(f \<mapsto> Json_text d2)))"
  using assms
  by (simp_all add: run_defs reconcile_market_metrics_def reconcile_exchange_supply_def
        split: option.splits content.splits sum.splits)













subsection \<open>The loop\<close>








subsection \<open>The example document and world\<close>








lemma failing_responses:
  "fetch_fails Conn_failed" "fetch_fails Timed_out" "fetch_fails (Response 503 (Not_json []))"
  "fetch_fails example_partial_response"
  "benign Conn_failed" "response_data Conn_failed = Inl ConnectionError"
  by (simp_all add: fetch_fails_def benign_def response_data_def example_partial_response_def
        missing_key_def expected_keys_def)

lemma example_world_fields:
  "files (example_world fs r) = fs" "http (example_world fs r) i = r"
  "http_calls (example_world fs r) = 0" "clock (example_world fs r) i = example_time"
  "clock_reads (example_world fs r) = 0" "sleeps_left (example_world fs r) = Some 1"
  "trace (example_world fs r) = []" "writes (example_world fs r) = []"
  "sleeps (example_world fs r) = []" "requests (example_world fs r) = []"
  "monotonic (example_world fs r) i = 3600 * 10 ^ 9"
  by (simp_all add: example_world_def writes_def sleeps_def requests_def)




subsection \<open>The claims\<close>







text \<open>
  C3. When the file does not exist or does not hold valid JSON, the update is to return
  a failure value without raising, and to write no file. The \<^verbatim>\<open>try\<close> of lines 56 to 61
  stands around both \<^verbatim>\<open>open\<close> and \<^verbatim>\<open>json.load\<close>, but its one handler is
  \<^verbatim>\<open>except FileNotFoundError\<close>: with no file the update returns \<^verbatim>\<open>False\<close>, and on a file
  that holds \<^verbatim>\<open>{\<close> it raises the decoding error instead (on bytes that are not text,
  the error of the decoder). No file is written in any of these cases.
\<close>

theorem invalid_json_raises_at_load:
  "fst (update_dashboard_json default_filename
     (example_world Map.empty example_response)) = Return False \<and>
   files (snd (update_dashboard_json default_filename
     (example_world Map.empty example_response))) = Map.empty \<and>
   fst (update_dashboard_json default_filename
     (example_world [default_filename \<mapsto> Not_json ''{''] example_response)) =
     Raise JSONDecodeError \<and>
   files (snd (update_dashboard_json default_filename
     (example_world [default_filename \<mapsto> Not_json ''{''] example_response))) =
     [default_filename \<mapsto> Not_json ''{''] \<and>
   writes (snd (update_dashboard_json default_filename
     (example_world [default_filename \<mapsto> Not_json ''{''] example_response))) = [] \<and>
   fst (update_dashboard_json default_filename
     (example_world [default_filename \<mapsto> Not_text] example_response)) =
     Raise UnicodeDecodeError"
proof -
  have "files (example_world Map.empty example_response) default_filename = None"
    by (simp add: example_world_fields)
  note a = update_missing_file(1,2) [OF this]
  have "files (example_world [default_filename \<mapsto> Not_json ''{''] example_response)
      default_filename = Some (Not_json ''{'')"
    "json_load (Not_json ''{'') = Inl JSONDecodeError"
    by (simp_all add: example_world_fields json_load_def)
  note b = update_not_json(1-3) [OF this]
  have "files (example_world [default_filename \<mapsto> Not_text] example_response)
      default_filename = Some Not_text"
    "json_load Not_text = Inl UnicodeDecodeError"
    by (simp_all add: example_world_fields json_load_def)
  note c = update_not_json(1) [OF this]
  show ?thesis
    by (simp add: a b c example_world_fields)
qed

text \<open>
  C4. \<^verbatim>\<open>fetch_xrp_price_data\<close> never raises. On every failure of the fetch (no connection,
  a timeout, an error status, a body that is not JSON or that lacks \<^verbatim>\<open>ripple\<close> or one of
  its four keys) it returns \<^verbatim>\<open>None\<close>. An error status is one of 400 to 599, for which
  \<^verbatim>\<open>raise_for_status\<close> raises; the \<^verbatim>\<open>requests\<close> library calls a response ok when its
  status is below 400. The cycle that follows does not depend on which failure it was:
  from the same files, two cycles whose fetches fail return the same value and leave the
  same files.
\<close>

theorem fetch_failure_is_no_data:
  "(\<exists>p. fst (fetch_xrp_price_data w) = Return p) \<and>
   (fetch_fails (http w (http_calls w)) \<longrightarrow> fst (fetch_xrp_price_data w) = Return None) \<and>
   (fetch_fails (http w (http_calls w)) \<and> fetch_fails (http w' (http_calls w')) \<and>
    files w' = files w \<longrightarrow>
      fst (update_dashboard_json filename w') = fst (update_dashboard_json filename w) \<and>
      files (snd (update_dashboard_json filename w')) =
      files (snd (update_dashboard_json filename w)))"
proof (intro conjI impI)
  show "\<exists>p. fst (fetch_xrp_price_data w) = Return p"
    by (simp add: fetch_run split: sum.splits)
next
  assume "fetch_fails (http w (http_calls w))"
  then show "fst (fetch_xrp_price_data w) = Return None"
    by (auto simp: fetch_fails_iff fetch_run)
next
  assume a: "fetch_fails (http w (http_calls w)) \<and> fetch_fails (http w' (http_calls w')) \<and>
    files w' = files w"
  then obtain e e' where e: "response_data (http w (http_calls w)) = Inl e"
    "response_data (http w' (http_calls w')) = Inl e'"
    unfolding fetch_fails_iff by blast
  from a have fw: "files w' = files w" by simp
  then have "open_read filename w' = open_read filename w"
    by (simp add: open_read_def)
  then show "fst (update_dashboard_json filename w') = fst (update_dashboard_json filename w)"
    "files (snd (update_dashboard_json filename w')) =
     files (snd (update_dashboard_json filename w))"
    by (simp_all add: update_no_data_any [OF e(1)] update_no_data_any [OF e(2)] fw
          split: sum.splits)
qed

theorem fetch_failure_is_no_data_witness:
  "fetch_fails Timed_out \<and> fetch_fails example_partial_response \<and>
   fst (fetch_xrp_price_data (example_world Map.empty Timed_out)) = Return None \<and>
   fst (update_dashboard_json default_filename
     (example_world [default_filename \<mapsto> Json_text example_doc] example_partial_response)) =
   fst (update_dashboard_json default_filename
     (example_world [default_filename \<mapsto> Json_text example_doc] Timed_out)) \<and>
   files (snd (update_dashboard_json default_filename
     (example_world [default_filename \<mapsto> Json_text example_doc] example_partial_response))) =
   files (snd (update_dashboard_json default_filename
     (example_world [default_filename \<mapsto> Json_text example_doc] Timed_out)))"
  using fetch_failure_is_no_data [of "example_world Map.empty Timed_out"]
    fetch_failure_is_no_data
      [of "example_world [default_filename \<mapsto> Json_text example_doc] Timed_out"
          "example_world [default_filename \<mapsto> Json_text example_doc]
             example_partial_response"
          default_filename]
  by (simp add: example_world_fields failing_responses)













text \<open>
  C9. When the file is missing, \<^verbatim>\<open>update_dashboard_json\<close> returns \<^verbatim>\<open>False\<close> before the
  price fetch is called: no HTTP request is sent in that cycle, and no outcome of a
  request is consumed.
\<close>

theorem missing_file_sends_no_request:
  assumes "files w filename = None"
  shows "fst (update_dashboard_json filename w) = Return False \<and>
         requests (snd (update_dashboard_json filename w)) = requests w \<and>
         http_calls (snd (update_dashboard_json filename w)) = http_calls w"
  using update_missing_file(1,4,8) [OF assms] by simp

theorem missing_file_sends_no_request_witness:
  "files (example_world Map.empty example_response) default_filename = None \<and>
   fst (update_dashboard_json default_filename (example_world Map.empty example_response)) =
     Return False \<and>
   requests (snd (update_dashboard_json default_filename
     (example_world Map.empty example_response))) = [] \<and>
   http_calls (snd (update_dashboard_json default_filename
     (example_world Map.empty example_response))) = 0"
  using missing_file_sends_no_request
    [of "example_world Map.empty example_response" default_filename]
  by (simp add: example_world_def requests_def)

text \<open>
  C10. Started with a first argument that is neither \<^verbatim>\<open>--continuous\<close> nor \<^verbatim>\<open>--help\<close>,
  the program does nothing: it runs no update, prints nothing and ends without an
  error, the world being as it was.
\<close>

theorem other_argument_does_nothing:
  assumes "length argv > 1" "argv ! 1 \<noteq> ''--continuous''" "argv ! 1 \<noteq> ''--help''"
  shows "main py_int argv w = Some (Return (), w)"
  using assms by (simp add: main_def)

theorem other_argument_does_nothing_witness:
  "length [''xrp_dashboard_updater.py'', ''--once''] > 1 \<and>
   [''xrp_dashboard_updater.py'', ''--once''] ! 1 \<noteq> ''--continuous'' \<and>
   [''xrp_dashboard_updater.py'', ''--once''] ! 1 \<noteq> ''--help'' \<and>
   main (\<lambda>s. None) [''xrp_dashboard_updater.py'', ''--once'']
     (example_world Map.empty example_response) =
   Some (Return (), example_world Map.empty example_response)"
  using other_argument_does_nothing
    [of "[''xrp_dashboard_updater.py'', ''--once'']" "\<lambda>s. None"
        "example_world Map.empty example_response"]
  by simp

end
